theory Spec2Isabelle
  imports Main "HOL-Library.Word"
begin

section \<open>Data model of the monitor's group state machine\<close>

text \<open>
  The development embeds \<^verbatim>\<open>src/monitor/group_state_machine.c\<close>: the functions
  \<^verbatim>\<open>ProceedGroupState\<close>, \<^verbatim>\<open>ProceedGroupStateForPrimaryNode\<close>, \<^verbatim>\<open>AssignGoalState\<close>,
  \<^verbatim>\<open>WalDifferenceWithin\<close>, \<^verbatim>\<open>IsHealthy\<close>, \<^verbatim>\<open>IsUnhealthy\<close> and \<^verbatim>\<open>IsDrainTimeExpired\<close>.
  The headers \<^verbatim>\<open>replication_state.h\<close>, \<^verbatim>\<open>node_metadata.h\<close> and
  \<^verbatim>\<open>formation_metadata.h\<close> are not part of the sources at hand; what they declare is
  taken from the specification and marked as such.
\<close>

text \<open>
  Modelled from the spec: the enumeration \<^verbatim>\<open>ReplicationState\<close> of
  \<^verbatim>\<open>replication_state.h\<close>, section 3 of the specification: the closed set of the
  thirteen node states. The constructors carry the names the C file uses.
\<close>

datatype ReplicationState =
    REPLICATION_STATE_SINGLE
  | REPLICATION_STATE_WAIT_PRIMARY
  | REPLICATION_STATE_PRIMARY
  | REPLICATION_STATE_JOIN_PRIMARY
  | REPLICATION_STATE_APPLY_SETTINGS
  | REPLICATION_STATE_WAIT_STANDBY
  | REPLICATION_STATE_CATCHINGUP
  | REPLICATION_STATE_SECONDARY
  | REPLICATION_STATE_PREPARE_PROMOTION
  | REPLICATION_STATE_STOP_REPLICATION
  | REPLICATION_STATE_DEMOTE_TIMEOUT
  | REPLICATION_STATE_DRAINING
  | REPLICATION_STATE_DEMOTED

text \<open>
  Modelled from the spec: the health tag of a node record, \<open>{good, bad, unknown}\<close>,
  and the sync-state tag \<open>(async / potential / sync / quorum)\<close>; both enumerations are
  declared in \<^verbatim>\<open>node_metadata.h\<close>.
\<close>

datatype NodeHealth = NODE_HEALTH_UNKNOWN | NODE_HEALTH_BAD | NODE_HEALTH_GOOD

datatype SyncState = SYNC_STATE_ASYNC | SYNC_STATE_POTENTIAL | SYNC_STATE_SYNC | SYNC_STATE_QUORUM

text \<open>
  \<^verbatim>\<open>XLogRecPtr\<close> is PostgreSQL's \<^verbatim>\<open>typedef uint64 XLogRecPtr\<close>: an unsigned 64-bit
  integer whose arithmetic wraps. \<^verbatim>\<open>TimestampTz\<close> is PostgreSQL's \<^verbatim>\<open>int64\<close> count of
  microseconds, a signed 64-bit integer. The integer fields that the state machine
  only compares (identifiers, ports, priorities) and the configuration variables, of
  type \<^verbatim>\<open>int\<close>, are read as their integer values.
\<close>

type_synonym XLogRecPtr = "64 word"
type_synonym TimestampTz = "64 word"

text \<open>
  Modelled from the spec: the struct \<^verbatim>\<open>AutoFailoverNode\<close> of \<^verbatim>\<open>node_metadata.h\<close>,
  with the fields of the node record of section 3, under the names that
  \<^verbatim>\<open>group_state_machine.c\<close> dereferences.
\<close>

record AutoFailoverNode =
  formationId :: string
  nodeId :: int
  groupId :: int
  nodeName :: string
  nodePort :: int
  goalState :: ReplicationState
  reportedState :: ReplicationState
  reportTime :: TimestampTz
  pgIsRunning :: bool
  pgsrSyncState :: SyncState
  reportedLSN :: XLogRecPtr
  health :: NodeHealth
  healthCheckTime :: TimestampTz
  stateChangeTime :: TimestampTz
  candidatePriority :: int
  replicationQuorum :: bool

text \<open>
  Modelled from the spec: the formation record of \<^verbatim>\<open>formation_metadata.h\<close>, reduced
  to its identifier and its kind in \<open>{plain, sharded}\<close>, and \<^verbatim>\<open>IsCitusFormation\<close>, which
  tells a sharded formation (rules R5 and R8 consult the tag).
\<close>

datatype FormationKind = FORMATION_KIND_PGSQL | FORMATION_KIND_CITUS

record AutoFailoverFormation =
  formationName :: string
  kind :: FormationKind

definition IsCitusFormation :: "AutoFailoverFormation \<Rightarrow> bool" where
  "IsCitusFormation formation = (kind formation = FORMATION_KIND_CITUS)"

text \<open>
  What the C file reads from its surroundings during one call: the wall clock, the
  start time of the process (\<^verbatim>\<open>PgStartTime\<close>) and the five configuration variables
  declared at the top of the file. The C code reads the clock anew, with
  \<^verbatim>\<open>GetCurrentTimestamp()\<close>, in each call of \<^verbatim>\<open>IsUnhealthy\<close> and of
  \<^verbatim>\<open>IsDrainTimeExpired\<close>; here all the reads of one call of the engine give the same
  value \<open>now\<close>.
\<close>

record MonitorEnv =
  now :: TimestampTz
  PgStartTime :: TimestampTz
  EnableSyncXlogThreshold :: int
  PromoteXlogThreshold :: int
  DrainTimeoutMs :: int
  UnhealthyTimeoutMs :: int
  StartupGracePeriodMs :: int

text \<open>
  The error raised by \<^verbatim>\<open>ereport(ERROR, ...)\<close>, which does not return to the caller
  of the engine: the call ends there and the failure is reported.
\<close>

datatype error = PrimaryNodeNotFound

text \<open>
  \<^verbatim>\<open>AssignGoalState\<close> writes the goal state of one node (in memory and through
  \<^verbatim>\<open>SetNodeGoalState\<close>) and emits one notification. The model collects the calls in
  the order they are made: one pair of the node the call was given and the state.
\<close>

type_synonym assignment = "AutoFailoverNode \<times> ReplicationState"

section \<open>Predicates\<close>

text \<open>
  Modelled from the spec: the state predicate "is-primary-like" of the
  replication-state vocabulary (\<^verbatim>\<open>replication_state.h\<close>): the set
  \<open>{single, wait_primary, primary, join_primary, apply_settings}\<close>.
\<close>

fun IsPrimaryLike :: "ReplicationState \<Rightarrow> bool" where
  "IsPrimaryLike REPLICATION_STATE_SINGLE = True"
| "IsPrimaryLike REPLICATION_STATE_WAIT_PRIMARY = True"
| "IsPrimaryLike REPLICATION_STATE_PRIMARY = True"
| "IsPrimaryLike REPLICATION_STATE_JOIN_PRIMARY = True"
| "IsPrimaryLike REPLICATION_STATE_APPLY_SETTINGS = True"
| "IsPrimaryLike _ = False"

text \<open>
  Modelled from the spec: \<^verbatim>\<open>IsCurrentState\<close> of \<^verbatim>\<open>node_metadata.c\<close>, which section
  4.2 defines as \<open>n.reportedState = s \<and> n.goalState = s\<close>: the node has converged to
  \<open>s\<close>.
\<close>

definition IsCurrentState :: "AutoFailoverNode \<Rightarrow> ReplicationState \<Rightarrow> bool" where
  "IsCurrentState pgAutoFailoverNode state =
     (reportedState pgAutoFailoverNode = state \<and> goalState pgAutoFailoverNode = state)"

text \<open>
  Modelled from the spec: \<^verbatim>\<open>IsInPrimaryState\<close> of \<^verbatim>\<open>node_metadata.c\<close>. The rules of
  section 4.2 write \<open>n \<in> s\<close> for a node that has converged to \<open>s\<close>; a node is
  primary-like when it is so in a state of the primary-like set.
\<close>

definition IsInPrimaryState :: "AutoFailoverNode \<Rightarrow> bool" where
  "IsInPrimaryState pgAutoFailoverNode =
     (goalState pgAutoFailoverNode = reportedState pgAutoFailoverNode \<and>
      IsPrimaryLike (goalState pgAutoFailoverNode))"

text \<open>
  Modelled from the spec: \<^verbatim>\<open>GetPrimaryNodeInGroup\<close> of \<^verbatim>\<open>node_metadata.c\<close>, section
  4.2: the node \<open>P\<close> is "found by scanning for a node whose reportedState or goalState
  is in the primary-like set"; the scan is over the rows of the group and \<open>None\<close> is
  the C function's \<^verbatim>\<open>NULL\<close>.
\<close>

definition GetPrimaryNodeInGroup :: "AutoFailoverNode list \<Rightarrow> AutoFailoverNode option" where
  "GetPrimaryNodeInGroup nodesGroupList =
     find (\<lambda>currentNode. IsPrimaryLike (reportedState currentNode) \<or>
                          IsPrimaryLike (goalState currentNode)) nodesGroupList"

text \<open>
  Modelled from the spec: \<^verbatim>\<open>AutoFailoverOtherNodesList\<close> of \<^verbatim>\<open>node_metadata.c\<close>:
  "the set of other nodes in the group", the rows of the group whose stable node
  identifier is not the given node's, in the order of the group.
\<close>

definition AutoFailoverOtherNodesList ::
  "AutoFailoverNode list \<Rightarrow> AutoFailoverNode \<Rightarrow> AutoFailoverNode list" where
  "AutoFailoverOtherNodesList nodesGroupList pgAutoFailoverNode =
     filter (\<lambda>otherNode. nodeId otherNode \<noteq> nodeId pgAutoFailoverNode) nodesGroupList"

text \<open>
  PostgreSQL's \<^verbatim>\<open>TimestampDifferenceExceeds(start, stop, msec)\<close>:
  \<^verbatim>\<open>TimestampTz diff = stop_time - start_time; return (diff >= msec * INT64CONST(1000));\<close>
  The difference is taken in 64 bits, where it wraps, and read as a signed value; the
  product of the \<^verbatim>\<open>int\<close> \<open>msec\<close> with 1000 fits 64 bits.
\<close>

definition TimestampDifferenceExceeds :: "TimestampTz \<Rightarrow> TimestampTz \<Rightarrow> int \<Rightarrow> bool" where
  "TimestampDifferenceExceeds start_time stop_time msec =
     (let diff = sint (stop_time - start_time) in diff \<ge> msec * 1000)"

definition IsHealthy :: "AutoFailoverNode option \<Rightarrow> bool" where
  "IsHealthy pgAutoFailoverNode =
     (case pgAutoFailoverNode of
        None \<Rightarrow> False
      | Some n \<Rightarrow> health n = NODE_HEALTH_GOOD \<and> pgIsRunning n = True)"

definition IsUnhealthy :: "MonitorEnv \<Rightarrow> AutoFailoverNode option \<Rightarrow> bool" where
  "IsUnhealthy env pgAutoFailoverNode =
     (case pgAutoFailoverNode of
        None \<Rightarrow> True
      | Some n \<Rightarrow>
          if TimestampDifferenceExceeds (reportTime n) (now env) (UnhealthyTimeoutMs env) \<and>
             health n = NODE_HEALTH_BAD \<and>
             TimestampDifferenceExceeds (PgStartTime env) (healthCheckTime n) 0 \<and>
             TimestampDifferenceExceeds (PgStartTime env) (now env) (StartupGracePeriodMs env)
          then True
          else if \<not> pgIsRunning n then True
          else False)"

definition IsDrainTimeExpired :: "MonitorEnv \<Rightarrow> AutoFailoverNode option \<Rightarrow> bool" where
  "IsDrainTimeExpired env pgAutoFailoverNode =
     (case pgAutoFailoverNode of
        None \<Rightarrow> False
      | Some n \<Rightarrow>
          if goalState n \<noteq> REPLICATION_STATE_DEMOTE_TIMEOUT then False
          else TimestampDifferenceExceeds (stateChangeTime n) (now env) (DrainTimeoutMs env))"

text \<open>
  PostgreSQL's macro \<^verbatim>\<open>Abs(x)\<close> is \<^verbatim>\<open>((x) >= 0 ? (x) : -(x))\<close>. In
  \<^verbatim>\<open>WalDifferenceWithin\<close> its argument is the difference of two \<^verbatim>\<open>XLogRecPtr\<close>, an
  unsigned 64-bit value, so the comparison with zero is the unsigned one.
\<close>

definition Abs_XLogRecPtr :: "XLogRecPtr \<Rightarrow> XLogRecPtr" where
  "Abs_XLogRecPtr x = (if x \<ge> 0 then x else - x)"

text \<open>
  \<^verbatim>\<open>WalDifferenceWithin\<close>: \<open>delta\<close> is the value of the \<^verbatim>\<open>int64\<close> argument, and
  \<open>walDifference\<close>, an \<^verbatim>\<open>int64\<close>, receives the unsigned result of \<^verbatim>\<open>Abs\<close>: its value
  is the two's complement reading \<open>sint\<close> of the 64 bits.
\<close>

definition WalDifferenceWithin ::
  "AutoFailoverNode option \<Rightarrow> AutoFailoverNode option \<Rightarrow> int \<Rightarrow> bool" where
  "WalDifferenceWithin secondaryNode otherNode delta =
     (case secondaryNode of
        None \<Rightarrow> True
      | Some s \<Rightarrow>
         (case otherNode of
            None \<Rightarrow> True
          | Some p \<Rightarrow>
              (let secondaryLsn = reportedLSN s;
                   otherNodeLsn = reportedLSN p
               in if secondaryLsn = 0 \<or> otherNodeLsn = 0 then False
                  else (let walDifference = sint (Abs_XLogRecPtr (otherNodeLsn - secondaryLsn))
                        in walDifference \<le> delta))))"

definition AssignGoalState :: "AutoFailoverNode option \<Rightarrow> ReplicationState \<Rightarrow> assignment list" where
  "AssignGoalState pgAutoFailoverNode state =
     (case pgAutoFailoverNode of
        None \<Rightarrow> []
      | Some n \<Rightarrow> [(n, state)])"

section \<open>The transition engine\<close>

text \<open>
  The third loop of \<^verbatim>\<open>ProceedGroupStateForPrimaryNode\<close> (rule R12), over the other
  nodes, threading \<open>failoverCandidateCount\<close>; it returns the final counter and the
  assignments made, in order.
\<close>

fun FailoverCandidatesLoop ::
  "MonitorEnv \<Rightarrow> AutoFailoverNode \<Rightarrow> AutoFailoverNode list \<Rightarrow> int \<Rightarrow> int \<times> assignment list" where
  "FailoverCandidatesLoop env primaryNode [] failoverCandidateCount =
     (failoverCandidateCount, [])"
| "FailoverCandidatesLoop env primaryNode (otherNode # rest) failoverCandidateCount =
     (let (count1, log1) =
            (if IsCurrentState otherNode REPLICATION_STATE_SECONDARY \<and>
                IsUnhealthy env (Some otherNode)
             then (failoverCandidateCount - 1,
                   AssignGoalState (Some otherNode) REPLICATION_STATE_CATCHINGUP)
             else if \<not> replicationQuorum otherNode \<or> candidatePriority otherNode = 0
             then (failoverCandidateCount - 1, [])
             else (failoverCandidateCount, []));
          log2 = (if count1 = 0
                  then AssignGoalState (Some primaryNode) REPLICATION_STATE_WAIT_PRIMARY
                  else []);
          (countN, logN) = FailoverCandidatesLoop env primaryNode rest count1
      in (countN, log1 @ log2 @ logN))"

text \<open>
  The two first loops return at the first other node that has converged to
  \<open>wait_standby\<close>: \<open>find\<close> yields that node, or \<open>None\<close> when the loop ends without
  returning.
\<close>

definition ProceedGroupStateForPrimaryNode ::
  "MonitorEnv \<Rightarrow> AutoFailoverNode list \<Rightarrow> AutoFailoverNode \<Rightarrow> (error + bool) \<times> assignment list" where
  "ProceedGroupStateForPrimaryNode env nodesGroupList primaryNode =
     (let otherNodesGroupList = AutoFailoverOtherNodesList nodesGroupList primaryNode;
          otherNodesCount = int (length otherNodesGroupList)
      in
      if IsCurrentState primaryNode REPLICATION_STATE_SINGLE \<and>
         find (\<lambda>otherNode. IsCurrentState otherNode REPLICATION_STATE_WAIT_STANDBY)
              otherNodesGroupList \<noteq> None
      then (Inr True, AssignGoalState (Some primaryNode) REPLICATION_STATE_WAIT_PRIMARY)
      else if IsCurrentState primaryNode REPLICATION_STATE_PRIMARY \<and>
         find (\<lambda>otherNode. IsCurrentState otherNode REPLICATION_STATE_WAIT_STANDBY)
              otherNodesGroupList \<noteq> None
      then (Inr True, AssignGoalState (Some primaryNode) REPLICATION_STATE_JOIN_PRIMARY)
      else if IsCurrentState primaryNode REPLICATION_STATE_PRIMARY
      then (Inr True,
            snd (FailoverCandidatesLoop env primaryNode otherNodesGroupList otherNodesCount))
      else if IsCurrentState primaryNode REPLICATION_STATE_APPLY_SETTINGS
      then (Inr True, AssignGoalState (Some primaryNode) REPLICATION_STATE_PRIMARY)
      else (Inr False, []))"

text \<open>
  \<^verbatim>\<open>ProceedGroupState\<close>. \<open>nodesGroupList\<close> is what \<^verbatim>\<open>AutoFailoverNodeGroup\<close> reads
  for the formation and group of the active node, and \<open>formation\<close> what
  \<^verbatim>\<open>GetFormation\<close> returns. The result is the value returned (\<open>Inr\<close>) or the error
  raised (\<open>Inl\<close>), with the assignments made. The \<^verbatim>\<open>if (IsUnhealthy(primaryNode))\<close>
  with an empty body has no effect and is left out.
\<close>

definition ProceedGroupState ::
  "MonitorEnv \<Rightarrow> AutoFailoverFormation \<Rightarrow> AutoFailoverNode list \<Rightarrow> AutoFailoverNode \<Rightarrow>
   (error + bool) \<times> assignment list" where
  "ProceedGroupState env formation nodesGroupList activeNode =
     (let nodesCount = int (length nodesGroupList) in
      if nodesCount = 1 \<and> \<not> IsCurrentState activeNode REPLICATION_STATE_SINGLE
      then (Inr True, AssignGoalState (Some activeNode) REPLICATION_STATE_SINGLE)
      else if IsInPrimaryState activeNode
      then ProceedGroupStateForPrimaryNode env nodesGroupList activeNode
      else
        (case GetPrimaryNodeInGroup nodesGroupList of
           None \<Rightarrow> (Inl PrimaryNodeNotFound, [])
         | Some primaryNode \<Rightarrow>
            if IsCurrentState activeNode REPLICATION_STATE_WAIT_STANDBY \<and>
               (IsCurrentState primaryNode REPLICATION_STATE_WAIT_PRIMARY \<or>
                IsCurrentState primaryNode REPLICATION_STATE_JOIN_PRIMARY)
            then (Inr True, AssignGoalState (Some activeNode) REPLICATION_STATE_CATCHINGUP)
            else if IsCurrentState activeNode REPLICATION_STATE_CATCHINGUP \<and>
               (IsCurrentState primaryNode REPLICATION_STATE_WAIT_PRIMARY \<or>
                IsCurrentState primaryNode REPLICATION_STATE_JOIN_PRIMARY) \<and>
               IsHealthy (Some activeNode) \<and>
               WalDifferenceWithin (Some activeNode) (Some primaryNode)
                 (EnableSyncXlogThreshold env)
            then (Inr True,
                  AssignGoalState (Some activeNode) REPLICATION_STATE_SECONDARY @
                  AssignGoalState (Some primaryNode) REPLICATION_STATE_PRIMARY)
            else if IsCurrentState activeNode REPLICATION_STATE_SECONDARY \<and>
               IsInPrimaryState primaryNode \<and>
               IsUnhealthy env (Some primaryNode) \<and> IsHealthy (Some activeNode) \<and>
               WalDifferenceWithin (Some activeNode) (Some primaryNode)
                 (PromoteXlogThreshold env)
            then (Inr True,
                  AssignGoalState (Some activeNode) REPLICATION_STATE_PREPARE_PROMOTION @
                  AssignGoalState (Some primaryNode) REPLICATION_STATE_DRAINING)
            else if IsCurrentState activeNode REPLICATION_STATE_PREPARE_PROMOTION \<and>
               IsCitusFormation formation \<and> groupId activeNode > 0
            then (Inr True,
                  AssignGoalState (Some activeNode) REPLICATION_STATE_WAIT_PRIMARY @
                  AssignGoalState (Some primaryNode) REPLICATION_STATE_DEMOTED)
            else if IsCurrentState activeNode REPLICATION_STATE_PREPARE_PROMOTION
            then (Inr True,
                  AssignGoalState (Some activeNode) REPLICATION_STATE_STOP_REPLICATION @
                  AssignGoalState (Some primaryNode) REPLICATION_STATE_DEMOTE_TIMEOUT)
            else if IsCurrentState activeNode REPLICATION_STATE_STOP_REPLICATION \<and>
               (IsCurrentState primaryNode REPLICATION_STATE_DEMOTE_TIMEOUT \<or>
                IsDrainTimeExpired env (Some primaryNode))
            then (Inr True,
                  AssignGoalState (Some activeNode) REPLICATION_STATE_WAIT_PRIMARY @
                  AssignGoalState (Some primaryNode) REPLICATION_STATE_DEMOTED)
            else if IsCurrentState activeNode REPLICATION_STATE_STOP_REPLICATION \<and>
               IsCitusFormation formation \<and> groupId activeNode > 0
            then (Inr True,
                  AssignGoalState (Some activeNode) REPLICATION_STATE_WAIT_PRIMARY @
                  AssignGoalState (Some primaryNode) REPLICATION_STATE_DEMOTED)
            else if IsCurrentState activeNode REPLICATION_STATE_DEMOTED \<and>
               IsCurrentState primaryNode REPLICATION_STATE_WAIT_PRIMARY
            then (Inr True, AssignGoalState (Some activeNode) REPLICATION_STATE_CATCHINGUP)
            else (Inr False, [])))"

text \<open>
  The assignments that \<^verbatim>\<open>ProceedGroupState\<close> can make for an active node \<open>a\<close> that
  is not in a primary state, once the primary node \<open>p\<close> is found: one alternative per
  rule, with what the rule has tested.
\<close>

definition StandbyLogShape ::
  "AutoFailoverNode \<Rightarrow> AutoFailoverNode \<Rightarrow> assignment list \<Rightarrow> bool" where
  "StandbyLogShape a p log =
     (log = [] \<or>
      log = [(a, REPLICATION_STATE_CATCHINGUP)] \<or>
      (log = [(a, REPLICATION_STATE_SECONDARY), (p, REPLICATION_STATE_PRIMARY)] \<and>
       IsCurrentState a REPLICATION_STATE_CATCHINGUP \<and>
       (IsCurrentState p REPLICATION_STATE_WAIT_PRIMARY \<or>
        IsCurrentState p REPLICATION_STATE_JOIN_PRIMARY)) \<or>
      (log = [(a, REPLICATION_STATE_PREPARE_PROMOTION), (p, REPLICATION_STATE_DRAINING)] \<and>
       IsCurrentState a REPLICATION_STATE_SECONDARY \<and> IsInPrimaryState p) \<or>
      (log = [(a, REPLICATION_STATE_WAIT_PRIMARY), (p, REPLICATION_STATE_DEMOTED)] \<and>
       (IsCurrentState a REPLICATION_STATE_PREPARE_PROMOTION \<or>
        IsCurrentState a REPLICATION_STATE_STOP_REPLICATION)) \<or>
      (log = [(a, REPLICATION_STATE_STOP_REPLICATION), (p, REPLICATION_STATE_DEMOTE_TIMEOUT)] \<and>
       IsCurrentState a REPLICATION_STATE_PREPARE_PROMOTION))"

section \<open>Persisting the assignments\<close>

text \<open>The primary key under which \<^verbatim>\<open>SetNodeGoalState\<close> finds the row of a node.\<close>

definition nodeKey :: "AutoFailoverNode \<Rightarrow> string \<times> int" where
  "nodeKey n = (nodeName n, nodePort n)"

text \<open>
  Modelled from the spec: \<^verbatim>\<open>SetNodeGoalState\<close> of \<^verbatim>\<open>node_metadata.c\<close>, which
  \<^verbatim>\<open>AssignGoalState\<close> calls with the name and the port of the node: the new goal state
  is persisted on the row of that name and port, and \<open>stateChangeTime\<close> is the last
  time the goal state was assigned.
\<close>

definition SetNodeGoalState ::
  "MonitorEnv \<Rightarrow> string \<Rightarrow> int \<Rightarrow> ReplicationState \<Rightarrow> AutoFailoverNode list \<Rightarrow>
   AutoFailoverNode list" where
  "SetNodeGoalState env name port state rows =
     map (\<lambda>row. if nodeName row = name \<and> nodePort row = port
                 then row\<lparr>goalState := state, stateChangeTime := now env\<rparr>
                 else row) rows"

text \<open>The rows of the group after the assignments of one call, made in order.\<close>

fun ApplyAssignments ::
  "MonitorEnv \<Rightarrow> assignment list \<Rightarrow> AutoFailoverNode list \<Rightarrow> AutoFailoverNode list" where
  "ApplyAssignments env [] rows = rows"
| "ApplyAssignments env ((n, state) # rest) rows =
     ApplyAssignments env rest (SetNodeGoalState env (nodeName n) (nodePort n) state rows)"

text \<open>The number of rows of a group whose goal state is in the primary-like set.\<close>

definition PrimaryLikeGoalCount :: "AutoFailoverNode list \<Rightarrow> nat" where
  "PrimaryLikeGoalCount rows = length (filter (\<lambda>n. IsPrimaryLike (goalState n)) rows)"

text \<open>
  The goal states of a node that is the primary of its group or is being promoted to
  it: the primary-like set with \<open>prepare_promotion\<close> and \<open>stop_replication\<close>.
\<close>

definition IsPrimaryOrPromoting :: "ReplicationState \<Rightarrow> bool" where
  "IsPrimaryOrPromoting s =
     (IsPrimaryLike s \<or> s = REPLICATION_STATE_PREPARE_PROMOTION \<or>
      s = REPLICATION_STATE_STOP_REPLICATION)"

definition PrimaryOrPromotingGoalCount :: "AutoFailoverNode list \<Rightarrow> nat" where
  "PrimaryOrPromotingGoalCount rows =
     length (filter (\<lambda>n. IsPrimaryOrPromoting (goalState n)) rows)"


text \<open>The number of assignments of a call whose new goal state is primary-like.\<close>

definition PrimaryLikeAssignmentCount :: "assignment list \<Rightarrow> nat" where
  "PrimaryLikeAssignmentCount assignments =
     length (filter (\<lambda>a. IsPrimaryLike (snd a)) assignments)"

text \<open>
  The two tests of the loop of rule R12 on one other node: the node is a converged
  secondary that is unhealthy, and the node is not a candidate for failover.
\<close>

definition IsUnhealthySecondary :: "MonitorEnv \<Rightarrow> AutoFailoverNode \<Rightarrow> bool" where
  "IsUnhealthySecondary env otherNode =
     (IsCurrentState otherNode REPLICATION_STATE_SECONDARY \<and> IsUnhealthy env (Some otherNode))"

definition IsNotCandidate :: "AutoFailoverNode \<Rightarrow> bool" where
  "IsNotCandidate otherNode =
     (\<not> replicationQuorum otherNode \<or> candidatePriority otherNode = 0)"

section \<open>Concrete groups\<close>

text \<open>
  The settings of the scenarios of section 8 of the specification: thresholds of 16MB,
  a drain timeout of 30s, an unhealthy timeout of 20s and a startup grace period of
  10s; the monitor started at time 0 and the clock shows 100s.
\<close>

definition scenarioEnv :: MonitorEnv where
  "scenarioEnv = \<lparr> now = 100000000, PgStartTime = 0,
     EnableSyncXlogThreshold = 16777216, PromoteXlogThreshold = 16777216,
     DrainTimeoutMs = 30000, UnhealthyTimeoutMs = 20000, StartupGracePeriodMs = 10000 \<rparr>"

definition plainFormation :: AutoFailoverFormation where
  "plainFormation = \<lparr> formationName = ''default'', kind = FORMATION_KIND_PGSQL \<rparr>"

text \<open>
  A healthy node that reports now: identifier, name, reported state, goal state,
  reported LSN, candidate priority and quorum flag are given.
\<close>

definition healthyNode ::
  "int \<Rightarrow> string \<Rightarrow> ReplicationState \<Rightarrow> ReplicationState \<Rightarrow> XLogRecPtr \<Rightarrow> int \<Rightarrow> bool \<Rightarrow>
   AutoFailoverNode" where
  "healthyNode i name reported goal lsn priority quorum =
     \<lparr> formationId = ''default'', nodeId = i, groupId = 1, nodeName = name, nodePort = 5432,
       goalState = goal, reportedState = reported, reportTime = 100000000,
       pgIsRunning = True, pgsrSyncState = SYNC_STATE_SYNC, reportedLSN = lsn,
       health = NODE_HEALTH_GOOD, healthCheckTime = 99000000, stateChangeTime = 50000000,
       candidatePriority = priority, replicationQuorum = quorum \<rparr>"

text \<open>
  The same node when it has not reported for 25s and its last health check, made
  after the monitor started, failed.
\<close>

definition unhealthyNode ::
  "int \<Rightarrow> string \<Rightarrow> ReplicationState \<Rightarrow> ReplicationState \<Rightarrow> XLogRecPtr \<Rightarrow> int \<Rightarrow> bool \<Rightarrow>
   AutoFailoverNode" where
  "unhealthyNode i name reported goal lsn priority quorum =
     (healthyNode i name reported goal lsn priority quorum)
       \<lparr> reportTime := 75000000, health := NODE_HEALTH_BAD \<rparr>"

text \<open>The nodes of the groups that the theorems below evaluate.\<close>

definition s5_P :: AutoFailoverNode where
  "s5_P = healthyNode 1 ''P'' REPLICATION_STATE_PRIMARY REPLICATION_STATE_PRIMARY 100 100 True"

definition s5_S1 :: AutoFailoverNode where
  "s5_S1 = unhealthyNode 2 ''S1'' REPLICATION_STATE_SECONDARY REPLICATION_STATE_SECONDARY
             100 100 True"

definition s5_S2 :: AutoFailoverNode where
  "s5_S2 = healthyNode 3 ''S2'' REPLICATION_STATE_SECONDARY REPLICATION_STATE_SECONDARY
             100 0 False"

definition healthyCandidate :: AutoFailoverNode where
  "healthyCandidate =
     healthyNode 2 ''B'' REPLICATION_STATE_SECONDARY REPLICATION_STATE_SECONDARY 100 100 True"

definition failedPrimary :: AutoFailoverNode where
  "failedPrimary =
     unhealthyNode 1 ''A'' REPLICATION_STATE_PRIMARY REPLICATION_STATE_PRIMARY 100 100 True"

definition nonCandidateStandby :: AutoFailoverNode where
  "nonCandidateStandby =
     healthyNode 2 ''B'' REPLICATION_STATE_SECONDARY REPLICATION_STATE_SECONDARY 100 0 False"

definition drainingPrimary :: AutoFailoverNode where
  "drainingPrimary =
     unhealthyNode 1 ''A'' REPLICATION_STATE_PRIMARY REPLICATION_STATE_DRAINING 100 100 True"

definition promotedStandby :: AutoFailoverNode where
  "promotedStandby =
     healthyNode 2 ''B'' REPLICATION_STATE_PREPARE_PROMOTION REPLICATION_STATE_PREPARE_PROMOTION
       100 100 True"

definition catchingupStandby :: AutoFailoverNode where
  "catchingupStandby =
     healthyNode 3 ''C'' REPLICATION_STATE_CATCHINGUP REPLICATION_STATE_CATCHINGUP 100 100 True"

definition waitingPrimary :: AutoFailoverNode where
  "waitingPrimary =
     healthyNode 1 ''A'' REPLICATION_STATE_WAIT_PRIMARY REPLICATION_STATE_WAIT_PRIMARY
       100 100 True"

text \<open>
  A former primary that never reported again: its reported state is still \<open>primary\<close>,
  its goal state \<open>demote_timeout\<close> was assigned 50s ago.
\<close>

definition expiredPrimary :: AutoFailoverNode where
  "expiredPrimary =
     unhealthyNode 1 ''A'' REPLICATION_STATE_PRIMARY REPLICATION_STATE_DEMOTE_TIMEOUT
       100 100 True"

definition stoppedStandby :: AutoFailoverNode where
  "stoppedStandby =
     healthyNode 2 ''B'' REPLICATION_STATE_STOP_REPLICATION REPLICATION_STATE_STOP_REPLICATION
       100 100 True"

definition promotingStandby :: AutoFailoverNode where
  "promotingStandby =
     healthyNode 3 ''C'' REPLICATION_STATE_STOP_REPLICATION REPLICATION_STATE_WAIT_PRIMARY
       100 100 True"

text \<open>
  A standby whose reported LSN is 99999000 bytes ahead of the last LSN that the failed
  primary reported.
\<close>

definition aheadStandby :: AutoFailoverNode where
  "aheadStandby =
     healthyNode 2 ''B'' REPLICATION_STATE_SECONDARY REPLICATION_STATE_SECONDARY
       100000000 100 True"

definition stalePrimary :: AutoFailoverNode where
  "stalePrimary =
     unhealthyNode 1 ''A'' REPLICATION_STATE_PRIMARY REPLICATION_STATE_PRIMARY 1000 100 True"

lemmas engine_defs =
  ProceedGroupState_def ProceedGroupStateForPrimaryNode_def AssignGoalState_def
  IsCurrentState_def IsInPrimaryState_def GetPrimaryNodeInGroup_def
  AutoFailoverOtherNodesList_def IsHealthy_def IsUnhealthy_def IsDrainTimeExpired_def
  WalDifferenceWithin_def Abs_XLogRecPtr_def TimestampDifferenceExceeds_def
  IsCitusFormation_def

section \<open>Auxiliary facts\<close>

subsection \<open>The loop of rule R12\<close>

lemma loop_Cons_decrement:
  "IsUnhealthySecondary env x \<or> IsNotCandidate x \<Longrightarrow>
   FailoverCandidatesLoop env p (x # rest) cnt =
     (fst (FailoverCandidatesLoop env p rest (cnt - 1)),
      (if IsUnhealthySecondary env x then [(x, REPLICATION_STATE_CATCHINGUP)] else []) @
      (if cnt - 1 = 0 then [(p, REPLICATION_STATE_WAIT_PRIMARY)] else []) @
      snd (FailoverCandidatesLoop env p rest (cnt - 1)))"
  by (auto simp add: IsUnhealthySecondary_def IsNotCandidate_def AssignGoalState_def
        Let_def case_prod_unfold)

lemma loop_Cons_keep:
  "\<not> (IsUnhealthySecondary env x \<or> IsNotCandidate x) \<Longrightarrow>
   FailoverCandidatesLoop env p (x # rest) cnt =
     (fst (FailoverCandidatesLoop env p rest cnt),
      (if cnt = 0 then [(p, REPLICATION_STATE_WAIT_PRIMARY)] else []) @
      snd (FailoverCandidatesLoop env p rest cnt))"
  by (auto simp add: IsUnhealthySecondary_def IsNotCandidate_def AssignGoalState_def
        Let_def case_prod_unfold)


lemma loop_log:
  "int (length os) \<le> cnt \<Longrightarrow>
   snd (FailoverCandidatesLoop env p os cnt) =
     map (\<lambda>n. (n, REPLICATION_STATE_CATCHINGUP)) (filter (IsUnhealthySecondary env) os) @
     (if os \<noteq> [] \<and> cnt = int (length os) \<and>
         (\<forall>n\<in>set os. IsUnhealthySecondary env n \<or> IsNotCandidate n)
      then [(p, REPLICATION_STATE_WAIT_PRIMARY)] else [])"
proof (induction os arbitrary: cnt)
  case Nil
  then show ?case by simp
next
  case (Cons x rest)
  show ?case
  proof (cases "IsUnhealthySecondary env x \<or> IsNotCandidate x")
    case True
    have le: "int (length rest) \<le> cnt - 1" using Cons.prems by simp
    show ?thesis
      unfolding loop_Cons_decrement[OF True] snd_conv Cons.IH[OF le]
      using True Cons.prems by (cases rest) auto
  next
    case False
    have le: "int (length rest) \<le> cnt" using Cons.prems by simp
    show ?thesis
      unfolding loop_Cons_keep[OF False] snd_conv Cons.IH[OF le]
      using False Cons.prems by auto
  qed
qed

lemma loop_count:
  "fst (FailoverCandidatesLoop env p os cnt) =
     cnt - int (length (filter (\<lambda>n. IsUnhealthySecondary env n \<or> IsNotCandidate n) os))"
proof (induction os arbitrary: cnt)
  case Nil
  then show ?case by simp
next
  case (Cons x rest)
  show ?case
  proof (cases "IsUnhealthySecondary env x \<or> IsNotCandidate x")
    case True
    show ?thesis
      unfolding loop_Cons_decrement[OF True] fst_conv Cons.IH
      using True by simp
  next
    case False
    show ?thesis
      unfolding loop_Cons_keep[OF False] fst_conv Cons.IH
      using False by simp
  qed
qed


subsection \<open>The assignments of one call\<close>

lemma standby_log_shape:
  assumes "\<not> (int (length g) = 1 \<and> \<not> IsCurrentState a REPLICATION_STATE_SINGLE)"
    and "\<not> IsInPrimaryState a"
    and "GetPrimaryNodeInGroup g = Some p"
  shows "StandbyLogShape a p (snd (ProceedGroupState env f g a))"
  using assms
  by (simp add: ProceedGroupState_def AssignGoalState_def StandbyLogShape_def)

lemma primary_log_shape:
  "\<exists>cs rest. snd (ProceedGroupStateForPrimaryNode env g a) =
       map (\<lambda>n. (n, REPLICATION_STATE_CATCHINGUP)) cs @ rest \<and>
     set cs \<subseteq> set (AutoFailoverOtherNodesList g a) \<and>
     (rest = [] \<or> (\<exists>s. IsPrimaryLike s \<and> rest = [(a, s)]))"
proof -
  let ?os = "AutoFailoverOtherNodesList g a"
  have loop: "\<exists>cs rest. snd (FailoverCandidatesLoop env a ?os (int (length ?os))) =
       map (\<lambda>n. (n, REPLICATION_STATE_CATCHINGUP)) cs @ rest \<and>
     set cs \<subseteq> set ?os \<and> (rest = [] \<or> (\<exists>s. IsPrimaryLike s \<and> rest = [(a, s)]))"
    by (rule exI[of _ "filter (IsUnhealthySecondary env) ?os"], subst loop_log) auto
  have one: "\<And>s. IsPrimaryLike s \<Longrightarrow> \<exists>cs rest. [(a, s)] =
       map (\<lambda>n. (n, REPLICATION_STATE_CATCHINGUP)) cs @ rest \<and>
     set cs \<subseteq> set ?os \<and> (rest = [] \<or> (\<exists>s. IsPrimaryLike s \<and> rest = [(a, s)]))"
    by (rule exI[of _ "[]"]) simp
  show ?thesis
    using loop one[of REPLICATION_STATE_WAIT_PRIMARY] one[of REPLICATION_STATE_JOIN_PRIMARY]
      one[of REPLICATION_STATE_PRIMARY]
    by (simp add: ProceedGroupStateForPrimaryNode_def AssignGoalState_def Let_def)
qed


lemma ProceedGroupState_cases:
  "(int (length g) = 1 \<and> \<not> IsCurrentState a REPLICATION_STATE_SINGLE \<and>
      ProceedGroupState env f g a = (Inr True, [(a, REPLICATION_STATE_SINGLE)])) \<or>
   (\<not> (int (length g) = 1 \<and> \<not> IsCurrentState a REPLICATION_STATE_SINGLE) \<and>
      IsInPrimaryState a \<and>
      ProceedGroupState env f g a = ProceedGroupStateForPrimaryNode env g a) \<or>
   (\<not> (int (length g) = 1 \<and> \<not> IsCurrentState a REPLICATION_STATE_SINGLE) \<and>
      \<not> IsInPrimaryState a \<and> GetPrimaryNodeInGroup g = None \<and>
      ProceedGroupState env f g a = (Inl PrimaryNodeNotFound, [])) \<or>
   (\<exists>p. \<not> (int (length g) = 1 \<and> \<not> IsCurrentState a REPLICATION_STATE_SINGLE) \<and>
      \<not> IsInPrimaryState a \<and> GetPrimaryNodeInGroup g = Some p \<and>
      StandbyLogShape a p (snd (ProceedGroupState env f g a)))"
proof (cases "int (length g) = 1 \<and> \<not> IsCurrentState a REPLICATION_STATE_SINGLE")
  case True
  then show ?thesis by (simp add: ProceedGroupState_def AssignGoalState_def)
next
  case notSole: False
  show ?thesis
  proof (cases "IsInPrimaryState a")
    case True
    with notSole show ?thesis by (auto simp: ProceedGroupState_def)
  next
    case notPrimary: False
    show ?thesis
    proof (cases "GetPrimaryNodeInGroup g")
      case None
      with notSole notPrimary show ?thesis by (auto simp: ProceedGroupState_def)
    next
      case (Some p)
      with notSole notPrimary standby_log_shape[OF notSole notPrimary Some, of env f]
      show ?thesis by auto
    qed
  qed
qed

lemma stop_replication_log:
  assumes "(n, REPLICATION_STATE_STOP_REPLICATION) \<in> set (snd (ProceedGroupState env f g a))"
  shows "\<exists>p. GetPrimaryNodeInGroup g = Some p \<and> IsCurrentState a REPLICATION_STATE_PREPARE_PROMOTION \<and>
     snd (ProceedGroupState env f g a) =
       [(a, REPLICATION_STATE_STOP_REPLICATION), (p, REPLICATION_STATE_DEMOTE_TIMEOUT)]"
proof -
  obtain cs rest where shape:
    "snd (ProceedGroupStateForPrimaryNode env g a) =
       map (\<lambda>n. (n, REPLICATION_STATE_CATCHINGUP)) cs @ rest"
    "rest = [] \<or> (\<exists>s. IsPrimaryLike s \<and> rest = [(a, s)])"
    using primary_log_shape[of env g a] by blast
  have notPrimary: "(n, REPLICATION_STATE_STOP_REPLICATION) \<notin>
      set (snd (ProceedGroupStateForPrimaryNode env g a))"
    using shape by auto
  show ?thesis
    using ProceedGroupState_cases[of g a env f] assms notPrimary
    by (auto simp: StandbyLogShape_def)
qed


lemma prepare_promotion_log:
  assumes "(n, REPLICATION_STATE_PREPARE_PROMOTION) \<in> set (snd (ProceedGroupState env f g a))"
  shows "n = a \<and> IsCurrentState a REPLICATION_STATE_SECONDARY"
proof -
  obtain cs rest where shape:
    "snd (ProceedGroupStateForPrimaryNode env g a) =
       map (\<lambda>n. (n, REPLICATION_STATE_CATCHINGUP)) cs @ rest"
    "rest = [] \<or> (\<exists>s. IsPrimaryLike s \<and> rest = [(a, s)])"
    using primary_log_shape[of env g a] by blast
  have notPrimary: "(n, REPLICATION_STATE_PREPARE_PROMOTION) \<notin>
      set (snd (ProceedGroupStateForPrimaryNode env g a))"
    using shape by auto
  show ?thesis
    using ProceedGroupState_cases[of g a env f] assms notPrimary
    by (auto simp: StandbyLogShape_def)
qed

lemma count_catchingup:
  "PrimaryLikeAssignmentCount (map (\<lambda>n. (n, REPLICATION_STATE_CATCHINGUP)) cs @ rest) =
   PrimaryLikeAssignmentCount rest"
  by (induction cs) (simp_all add: PrimaryLikeAssignmentCount_def)

lemma primary_count:
  "PrimaryLikeAssignmentCount (snd (ProceedGroupStateForPrimaryNode env g a)) \<le> 1"
proof -
  obtain cs rest where shape:
    "snd (ProceedGroupStateForPrimaryNode env g a) =
       map (\<lambda>n. (n, REPLICATION_STATE_CATCHINGUP)) cs @ rest"
    "rest = [] \<or> (\<exists>s. IsPrimaryLike s \<and> rest = [(a, s)])"
    using primary_log_shape[of env g a] by blast
  have "PrimaryLikeAssignmentCount rest \<le> 1"
    using shape(2) by (auto simp: PrimaryLikeAssignmentCount_def)
  then show ?thesis by (simp add: shape(1) count_catchingup)
qed

lemma healthy_not_unhealthy: "IsHealthy (Some n) \<Longrightarrow> \<not> IsUnhealthy env (Some n)"
  by (simp add: IsHealthy_def IsUnhealthy_def)

lemma primary_report_result:
  assumes "IsCurrentState a REPLICATION_STATE_PRIMARY"
    and "\<forall>n\<in>set (AutoFailoverOtherNodesList g a). \<not> IsCurrentState n REPLICATION_STATE_WAIT_STANDBY"
    and "length g \<noteq> 1"
  shows "ProceedGroupState env f g a =
      (Inr True,
       map (\<lambda>n. (n, REPLICATION_STATE_CATCHINGUP))
           (filter (IsUnhealthySecondary env) (AutoFailoverOtherNodesList g a)) @
       (if AutoFailoverOtherNodesList g a \<noteq> [] \<and>
           (\<forall>n\<in>set (AutoFailoverOtherNodesList g a). IsUnhealthySecondary env n \<or> IsNotCandidate n)
        then [(a, REPLICATION_STATE_WAIT_PRIMARY)] else []))"
proof -
  let ?os = "AutoFailoverOtherNodesList g a"
  have prim: "IsInPrimaryState a" and notSingle: "\<not> IsCurrentState a REPLICATION_STATE_SINGLE"
    using assms(1) by (auto simp: IsInPrimaryState_def IsCurrentState_def)
  have noJoin: "find (\<lambda>otherNode. IsCurrentState otherNode REPLICATION_STATE_WAIT_STANDBY) ?os = None"
    using assms(2) by (auto simp: find_None_iff)
  have "ProceedGroupState env f g a = ProceedGroupStateForPrimaryNode env g a"
    using prim assms(3) by (simp add: ProceedGroupState_def)
  also have "\<dots> = (Inr True, snd (FailoverCandidatesLoop env a ?os (int (length ?os))))"
    using assms(1) notSingle noJoin by (simp add: ProceedGroupStateForPrimaryNode_def Let_def)
  finally show ?thesis by (simp add: loop_log)
qed

subsection \<open>Rows after the assignments\<close>















text \<open>
  The scan for the primary returns the first row that matches, on its reported state
  or on its goal state. In the group below, a former primary A that never reported
  again comes first, a standby C has the goal state \<open>wait_primary\<close> and the reporting
  standby B has converged to \<open>stop_replication\<close>, so two rows are promoted or about to
  be: the scan returns A, not C, and after the call both B and C have a primary-like
  goal state. This is why the statement on the primary-like goal states below asks
  that the node returned be the one with the primary-like goal state.
\<close>

lemma scan_returns_first_match:
  "GetPrimaryNodeInGroup [expiredPrimary, promotingStandby, stoppedStandby] = Some expiredPrimary \<and>
   IsPrimaryLike (goalState promotingStandby) \<and>
   IsCurrentState stoppedStandby REPLICATION_STATE_STOP_REPLICATION \<and>
   PrimaryOrPromotingGoalCount [expiredPrimary, promotingStandby, stoppedStandby] = 2 \<and>
   snd (ProceedGroupState scenarioEnv plainFormation
          [expiredPrimary, promotingStandby, stoppedStandby] stoppedStandby) =
     [(stoppedStandby, REPLICATION_STATE_WAIT_PRIMARY), (expiredPrimary, REPLICATION_STATE_DEMOTED)] \<and>
   PrimaryLikeGoalCount
       (ApplyAssignments scenarioEnv
          (snd (ProceedGroupState scenarioEnv plainFormation
                  [expiredPrimary, promotingStandby, stoppedStandby] stoppedStandby))
          [expiredPrimary, promotingStandby, stoppedStandby]) = 2"
  by (simp add: engine_defs nodeKey_def PrimaryLikeGoalCount_def SetNodeGoalState_def
        PrimaryOrPromotingGoalCount_def IsPrimaryOrPromoting_def
        plainFormation_def scenarioEnv_def healthyNode_def unhealthyNode_def
        expiredPrimary_def stoppedStandby_def promotingStandby_def)



lemma length_filter_all:
  "(length (filter P xs) = length xs) = (\<forall>x\<in>set xs. P x)"
proof
  assume eq: "length (filter P xs) = length xs"
  show "\<forall>x\<in>set xs. P x"
  proof (rule ccontr)
    assume "\<not> (\<forall>x\<in>set xs. P x)"
    then obtain x where "x \<in> set xs" "\<not> P x" by blast
    then have "length (filter P xs) < length xs" by (rule length_filter_less)
    with eq show False by simp
  qed
next
  assume "\<forall>x\<in>set xs. P x"
  then have "filter P xs = xs" by simp
  then show "length (filter P xs) = length xs" by simp
qed

section \<open>The lag predicate\<close>

text \<open>
  C9. When exactly one of the two node arguments of \<^verbatim>\<open>WalDifferenceWithin\<close> is absent
  (\<^verbatim>\<open>NULL\<close>), the function returns true, as it does when both are absent: whatever
  the present node and the bound are.
\<close>

theorem WalDifferenceWithin_one_absent:
  "WalDifferenceWithin (Some secondaryNode) None delta = True \<and>
   WalDifferenceWithin None (Some otherNode) delta = True \<and>
   WalDifferenceWithin None None delta = True"
  by (simp add: WalDifferenceWithin_def)

text \<open>
  C7. The claim is that, for two present nodes, \<^verbatim>\<open>WalDifferenceWithin\<close> is true exactly
  when both reported LSN are non-zero and their absolute difference is at most the
  bound. The function takes \<^verbatim>\<open>Abs\<close> of an unsigned difference, which changes nothing,
  and reads the result as a signed 64-bit value: what it computes for two present
  nodes is the first conjunct below. For the standby that is 99999000 bytes ahead of
  the last report of the primary, with the bound of 16MB, both LSN are non-zero, the
  absolute difference exceeds the bound, and the function returns true.
\<close>

theorem WalDifferenceWithin_standby_ahead:
  "WalDifferenceWithin (Some s) (Some p) delta =
     (reportedLSN s \<noteq> 0 \<and> reportedLSN p \<noteq> 0 \<and> sint (reportedLSN p - reportedLSN s) \<le> delta) \<and>
   reportedLSN aheadStandby \<noteq> 0 \<and> reportedLSN stalePrimary \<noteq> 0 \<and>
   \<bar>uint (reportedLSN aheadStandby) - uint (reportedLSN stalePrimary)\<bar> > 16777216 \<and>
   WalDifferenceWithin (Some aheadStandby) (Some stalePrimary) 16777216 = True"
  by (simp add: WalDifferenceWithin_def Abs_XLogRecPtr_def Let_def healthyNode_def unhealthyNode_def
        aheadStandby_def stalePrimary_def)

section \<open>Promotion candidates\<close>

text \<open>
  C1. The claim is that a node with \<open>candidatePriority = 0\<close> or
  \<open>replicationQuorum = false\<close> is never assigned \<open>prepare_promotion\<close>. The test of the
  failover rule reads neither field: in the group of a failed primary and a healthy
  secondary with priority 0 and no quorum, the report of the secondary assigns it
  \<open>prepare_promotion\<close> and assigns \<open>draining\<close> to the primary.
\<close>

theorem non_candidate_is_promoted:
  "candidatePriority nonCandidateStandby = 0 \<and> \<not> replicationQuorum nonCandidateStandby \<and>
   ProceedGroupState scenarioEnv plainFormation [failedPrimary, nonCandidateStandby]
       nonCandidateStandby =
     (Inr True, [(nonCandidateStandby, REPLICATION_STATE_PREPARE_PROMOTION),
                 (failedPrimary, REPLICATION_STATE_DRAINING)])"
  by (simp add: engine_defs plainFormation_def scenarioEnv_def healthyNode_def unhealthyNode_def
        failedPrimary_def nonCandidateStandby_def)

section \<open>Promotion order\<close>

text \<open>
  C3. Whenever a call assigns \<open>stop_replication\<close> to a node, the primary node \<open>p\<close> of
  the group was found and the same call assigns \<open>demote_timeout\<close> to it: the
  assignments of the call are exactly these two, in this order.
\<close>

theorem stop_replication_never_alone:
  assumes "(n, REPLICATION_STATE_STOP_REPLICATION) \<in> set (snd (ProceedGroupState env f g a))"
  shows "\<exists>p. GetPrimaryNodeInGroup g = Some p \<and>
           (p, REPLICATION_STATE_DEMOTE_TIMEOUT) \<in> set (snd (ProceedGroupState env f g a)) \<and>
           snd (ProceedGroupState env f g a) =
             [(a, REPLICATION_STATE_STOP_REPLICATION), (p, REPLICATION_STATE_DEMOTE_TIMEOUT)]"
  using stop_replication_log[OF assms] by auto

theorem stop_replication_never_alone_witness:
  "(promotedStandby, REPLICATION_STATE_STOP_REPLICATION) \<in>
     set (snd (ProceedGroupState scenarioEnv plainFormation
                 [drainingPrimary, promotedStandby] promotedStandby)) \<and>
   (\<exists>p. GetPrimaryNodeInGroup [drainingPrimary, promotedStandby] = Some p \<and>
      (p, REPLICATION_STATE_DEMOTE_TIMEOUT) \<in>
        set (snd (ProceedGroupState scenarioEnv plainFormation
                    [drainingPrimary, promotedStandby] promotedStandby)) \<and>
      snd (ProceedGroupState scenarioEnv plainFormation
             [drainingPrimary, promotedStandby] promotedStandby) =
        [(promotedStandby, REPLICATION_STATE_STOP_REPLICATION),
         (p, REPLICATION_STATE_DEMOTE_TIMEOUT)])"
proof -
  have h: "(promotedStandby, REPLICATION_STATE_STOP_REPLICATION) \<in>
     set (snd (ProceedGroupState scenarioEnv plainFormation
                 [drainingPrimary, promotedStandby] promotedStandby))"
    by (simp add: engine_defs plainFormation_def scenarioEnv_def healthyNode_def unhealthyNode_def
        drainingPrimary_def promotedStandby_def)
  show ?thesis using h stop_replication_never_alone[OF h] by simp
qed

text \<open>
  C8. In one call, a node that has converged to \<open>catchingup\<close> is not assigned
  \<open>stop_replication\<close>: \<open>stop_replication\<close> is assigned only to the reporting node and
  only when it has converged to \<open>prepare_promotion\<close>, and \<open>prepare_promotion\<close> only to
  the reporting node when it has converged to \<open>secondary\<close>. No step of the chain
  \<open>secondary\<close>, \<open>prepare_promotion\<close>, \<open>stop_replication\<close> can be skipped.
\<close>

theorem catchingup_never_stop_replication:
  "(IsCurrentState n REPLICATION_STATE_CATCHINGUP \<longrightarrow>
      (n, REPLICATION_STATE_STOP_REPLICATION) \<notin> set (snd (ProceedGroupState env f g a))) \<and>
   ((n, REPLICATION_STATE_STOP_REPLICATION) \<in> set (snd (ProceedGroupState env f g a)) \<longrightarrow>
      n = a \<and> IsCurrentState a REPLICATION_STATE_PREPARE_PROMOTION) \<and>
   ((n, REPLICATION_STATE_PREPARE_PROMOTION) \<in> set (snd (ProceedGroupState env f g a)) \<longrightarrow>
      n = a \<and> IsCurrentState a REPLICATION_STATE_SECONDARY)"
proof -
  have stop: "n = a \<and> IsCurrentState a REPLICATION_STATE_PREPARE_PROMOTION"
    if "(n, REPLICATION_STATE_STOP_REPLICATION) \<in> set (snd (ProceedGroupState env f g a))"
    using stop_replication_log[OF that] that by auto
  have prepare: "n = a \<and> IsCurrentState a REPLICATION_STATE_SECONDARY"
    if "(n, REPLICATION_STATE_PREPARE_PROMOTION) \<in> set (snd (ProceedGroupState env f g a))"
    using that by (rule prepare_promotion_log)
  have "(n, REPLICATION_STATE_STOP_REPLICATION) \<notin> set (snd (ProceedGroupState env f g a))"
    if "IsCurrentState n REPLICATION_STATE_CATCHINGUP"
    using stop that by (auto simp: IsCurrentState_def)
  with stop prepare show ?thesis by blast
qed

theorem catchingup_never_stop_replication_witness:
  "IsCurrentState catchingupStandby REPLICATION_STATE_CATCHINGUP \<and>
   (catchingupStandby, REPLICATION_STATE_STOP_REPLICATION) \<notin>
     set (snd (ProceedGroupState scenarioEnv plainFormation
                 [drainingPrimary, promotedStandby, catchingupStandby] promotedStandby)) \<and>
   (promotedStandby, REPLICATION_STATE_STOP_REPLICATION) \<in>
     set (snd (ProceedGroupState scenarioEnv plainFormation
                 [drainingPrimary, promotedStandby, catchingupStandby] promotedStandby)) \<and>
   IsCurrentState promotedStandby REPLICATION_STATE_PREPARE_PROMOTION \<and>
   (healthyCandidate, REPLICATION_STATE_PREPARE_PROMOTION) \<in>
     set (snd (ProceedGroupState scenarioEnv plainFormation
                 [failedPrimary, healthyCandidate] healthyCandidate)) \<and>
   IsCurrentState healthyCandidate REPLICATION_STATE_SECONDARY"
proof -
  have h1: "IsCurrentState catchingupStandby REPLICATION_STATE_CATCHINGUP"
    by (simp add: IsCurrentState_def plainFormation_def scenarioEnv_def healthyNode_def unhealthyNode_def
        healthyCandidate_def failedPrimary_def drainingPrimary_def promotedStandby_def catchingupStandby_def)
  have h2: "(promotedStandby, REPLICATION_STATE_STOP_REPLICATION) \<in>
     set (snd (ProceedGroupState scenarioEnv plainFormation
                 [drainingPrimary, promotedStandby, catchingupStandby] promotedStandby))"
    by (simp add: engine_defs plainFormation_def scenarioEnv_def healthyNode_def unhealthyNode_def
        healthyCandidate_def failedPrimary_def drainingPrimary_def promotedStandby_def catchingupStandby_def)
  have h3: "(healthyCandidate, REPLICATION_STATE_PREPARE_PROMOTION) \<in>
     set (snd (ProceedGroupState scenarioEnv plainFormation
                 [failedPrimary, healthyCandidate] healthyCandidate))"
    by (simp add: engine_defs plainFormation_def scenarioEnv_def healthyNode_def unhealthyNode_def
        healthyCandidate_def failedPrimary_def drainingPrimary_def promotedStandby_def catchingupStandby_def)
  show ?thesis
    using h1 h2 h3
      catchingup_never_stop_replication[of catchingupStandby scenarioEnv plainFormation
        "[drainingPrimary, promotedStandby, catchingupStandby]" promotedStandby]
      catchingup_never_stop_replication[of promotedStandby scenarioEnv plainFormation
        "[drainingPrimary, promotedStandby, catchingupStandby]" promotedStandby]
      catchingup_never_stop_replication[of healthyCandidate scenarioEnv plainFormation
        "[failedPrimary, healthyCandidate]" healthyCandidate]
    by blast
qed

section \<open>The report of a primary (rule R12)\<close>

text \<open>
  C5. When the reporting node has converged to \<open>primary\<close> and rule R12 is reached (the
  group has other nodes and none of them has converged to \<open>wait_standby\<close>), the call
  returns true after one pass over the other nodes: every other node that is a
  converged secondary and unhealthy is assigned \<open>catchingup\<close>, in order; the counter
  ends at the number of other nodes minus the number of those that are an unhealthy
  secondary or not a candidate; and the primary is assigned \<open>wait_primary\<close> exactly
  when there are other nodes and the counter ends at zero, which is when every other
  node is an unhealthy secondary or not a candidate. In scenario S5 the call assigns
  \<open>catchingup\<close> to S1 and \<open>wait_primary\<close> to the primary, the counter going from 2 to 0.
\<close>

theorem R12_bookkeeping:
  "(IsCurrentState a REPLICATION_STATE_PRIMARY \<and>
    (\<forall>n\<in>set (AutoFailoverOtherNodesList g a).
        \<not> IsCurrentState n REPLICATION_STATE_WAIT_STANDBY) \<and>
    length g \<noteq> 1 \<longrightarrow>
      ProceedGroupState env f g a =
        (Inr True,
         map (\<lambda>n. (n, REPLICATION_STATE_CATCHINGUP))
             (filter (IsUnhealthySecondary env) (AutoFailoverOtherNodesList g a)) @
         (if AutoFailoverOtherNodesList g a \<noteq> [] \<and>
             (\<forall>n\<in>set (AutoFailoverOtherNodesList g a).
                 IsUnhealthySecondary env n \<or> IsNotCandidate n)
          then [(a, REPLICATION_STATE_WAIT_PRIMARY)] else [])) \<and>
      fst (FailoverCandidatesLoop env a (AutoFailoverOtherNodesList g a)
             (int (length (AutoFailoverOtherNodesList g a)))) =
        int (length (AutoFailoverOtherNodesList g a)) -
        int (length (filter (\<lambda>n. IsUnhealthySecondary env n \<or> IsNotCandidate n)
                       (AutoFailoverOtherNodesList g a))) \<and>
      (((a, REPLICATION_STATE_WAIT_PRIMARY) \<in> set (snd (ProceedGroupState env f g a))) =
       (AutoFailoverOtherNodesList g a \<noteq> [] \<and>
        fst (FailoverCandidatesLoop env a (AutoFailoverOtherNodesList g a)
               (int (length (AutoFailoverOtherNodesList g a)))) = 0))) \<and>
   ProceedGroupState scenarioEnv plainFormation [s5_P, s5_S1, s5_S2] s5_P =
     (Inr True, [(s5_S1, REPLICATION_STATE_CATCHINGUP), (s5_P, REPLICATION_STATE_WAIT_PRIMARY)]) \<and>
   fst (FailoverCandidatesLoop scenarioEnv s5_P [s5_S1, s5_S2] 2) = 0"
proof -
  let ?os = "AutoFailoverOtherNodesList g a"
  let ?dec = "\<lambda>n. IsUnhealthySecondary env n \<or> IsNotCandidate n"
  have general:
    "ProceedGroupState env f g a =
        (Inr True,
         map (\<lambda>n. (n, REPLICATION_STATE_CATCHINGUP)) (filter (IsUnhealthySecondary env) ?os) @
         (if ?os \<noteq> [] \<and> (\<forall>n\<in>set ?os. IsUnhealthySecondary env n \<or> IsNotCandidate n)
          then [(a, REPLICATION_STATE_WAIT_PRIMARY)] else [])) \<and>
     fst (FailoverCandidatesLoop env a ?os (int (length ?os))) =
        int (length ?os) - int (length (filter ?dec ?os)) \<and>
     (((a, REPLICATION_STATE_WAIT_PRIMARY) \<in> set (snd (ProceedGroupState env f g a))) =
       (?os \<noteq> [] \<and> fst (FailoverCandidatesLoop env a ?os (int (length ?os))) = 0))"
    if h1: "IsCurrentState a REPLICATION_STATE_PRIMARY"
      and h2: "\<forall>n\<in>set ?os. \<not> IsCurrentState n REPLICATION_STATE_WAIT_STANDBY"
      and h3: "length g \<noteq> 1"
  proof -
    note res = primary_report_result[OF h1 h2 h3, of env f]
    have cnt: "fst (FailoverCandidatesLoop env a ?os (int (length ?os))) =
        int (length ?os) - int (length (filter ?dec ?os))"
      by (rule loop_count)
    have zero: "(fst (FailoverCandidatesLoop env a ?os (int (length ?os))) = 0) =
        (\<forall>n\<in>set ?os. ?dec n)"
      unfolding cnt using length_filter_all[of ?dec ?os] by auto
    have wp: "((a, REPLICATION_STATE_WAIT_PRIMARY) \<in> set (snd (ProceedGroupState env f g a))) =
       (?os \<noteq> [] \<and> fst (FailoverCandidatesLoop env a ?os (int (length ?os))) = 0)"
      unfolding zero by (auto simp: res)
    show ?thesis using res cnt wp by blast
  qed
  have s5: "ProceedGroupState scenarioEnv plainFormation [s5_P, s5_S1, s5_S2] s5_P =
     (Inr True, [(s5_S1, REPLICATION_STATE_CATCHINGUP), (s5_P, REPLICATION_STATE_WAIT_PRIMARY)])"
    by (simp add: engine_defs plainFormation_def scenarioEnv_def healthyNode_def unhealthyNode_def
        s5_P_def s5_S1_def s5_S2_def)
  have s5cnt: "fst (FailoverCandidatesLoop scenarioEnv s5_P [s5_S1, s5_S2] 2) = 0"
    by (simp add: engine_defs plainFormation_def scenarioEnv_def healthyNode_def unhealthyNode_def
        s5_P_def s5_S1_def s5_S2_def)
  show ?thesis using general s5 s5cnt by blast
qed

theorem R12_bookkeeping_witness:
  "IsCurrentState s5_P REPLICATION_STATE_PRIMARY \<and>
   AutoFailoverOtherNodesList [s5_P, s5_S1] s5_P = [s5_S1] \<and>
   \<not> IsCurrentState s5_S1 REPLICATION_STATE_WAIT_STANDBY \<and>
   length [s5_P, s5_S1] \<noteq> 1 \<and>
   ProceedGroupState scenarioEnv plainFormation [s5_P, s5_S1] s5_P =
     (Inr True, [(s5_S1, REPLICATION_STATE_CATCHINGUP), (s5_P, REPLICATION_STATE_WAIT_PRIMARY)]) \<and>
   fst (FailoverCandidatesLoop scenarioEnv s5_P [s5_S1] 1) = 0"
proof -
  have os: "AutoFailoverOtherNodesList [s5_P, s5_S1] s5_P = [s5_S1]"
    by (simp add: AutoFailoverOtherNodesList_def plainFormation_def scenarioEnv_def healthyNode_def unhealthyNode_def
        s5_P_def s5_S1_def)
  have h1: "IsCurrentState s5_P REPLICATION_STATE_PRIMARY"
    by (simp add: IsCurrentState_def plainFormation_def scenarioEnv_def healthyNode_def unhealthyNode_def
        s5_P_def s5_S1_def)
  have nws: "\<not> IsCurrentState s5_S1 REPLICATION_STATE_WAIT_STANDBY"
    by (simp add: IsCurrentState_def plainFormation_def scenarioEnv_def healthyNode_def unhealthyNode_def
        s5_P_def s5_S1_def)
  have h: "IsCurrentState s5_P REPLICATION_STATE_PRIMARY \<and>
    (\<forall>n\<in>set (AutoFailoverOtherNodesList [s5_P, s5_S1] s5_P).
        \<not> IsCurrentState n REPLICATION_STATE_WAIT_STANDBY) \<and>
    length [s5_P, s5_S1] \<noteq> 1"
    using h1 nws by (simp add: os)
  have unhealthy: "IsUnhealthySecondary scenarioEnv s5_S1"
    by (simp add: IsUnhealthySecondary_def engine_defs plainFormation_def scenarioEnv_def healthyNode_def unhealthyNode_def
        s5_P_def s5_S1_def)
  from R12_bookkeeping[of s5_P "[s5_P, s5_S1]" scenarioEnv plainFormation] h
  have "ProceedGroupState scenarioEnv plainFormation [s5_P, s5_S1] s5_P =
        (Inr True,
         map (\<lambda>n. (n, REPLICATION_STATE_CATCHINGUP))
             (filter (IsUnhealthySecondary scenarioEnv)
                (AutoFailoverOtherNodesList [s5_P, s5_S1] s5_P)) @
         (if AutoFailoverOtherNodesList [s5_P, s5_S1] s5_P \<noteq> [] \<and>
             (\<forall>n\<in>set (AutoFailoverOtherNodesList [s5_P, s5_S1] s5_P).
                 IsUnhealthySecondary scenarioEnv n \<or> IsNotCandidate n)
          then [(s5_P, REPLICATION_STATE_WAIT_PRIMARY)] else []))"
    and "fst (FailoverCandidatesLoop scenarioEnv s5_P (AutoFailoverOtherNodesList [s5_P, s5_S1] s5_P)
             (int (length (AutoFailoverOtherNodesList [s5_P, s5_S1] s5_P)))) =
        int (length (AutoFailoverOtherNodesList [s5_P, s5_S1] s5_P)) -
        int (length (filter (\<lambda>n. IsUnhealthySecondary scenarioEnv n \<or> IsNotCandidate n)
                       (AutoFailoverOtherNodesList [s5_P, s5_S1] s5_P)))"
    by blast+
  then show ?thesis using h1 nws unhealthy by (simp add: os)
qed

text \<open>
  C10. Whenever the reporting node has converged to \<open>primary\<close> and no other node of
  the group has converged to \<open>wait_standby\<close>, \<^verbatim>\<open>ProceedGroupState\<close> returns true; and it
  does so with no assignment at all when the group has other nodes and each of them
  is healthy, takes part in the quorum and has a non-zero priority.
\<close>

theorem converged_primary_returns_true:
  assumes "IsCurrentState a REPLICATION_STATE_PRIMARY"
    and "\<forall>n\<in>set (AutoFailoverOtherNodesList g a).
           \<not> IsCurrentState n REPLICATION_STATE_WAIT_STANDBY"
  shows "fst (ProceedGroupState env f g a) = Inr True \<and>
     (length g \<noteq> 1 \<and>
      (\<forall>n\<in>set (AutoFailoverOtherNodesList g a).
          IsHealthy (Some n) \<and> replicationQuorum n \<and> candidatePriority n \<noteq> 0) \<longrightarrow>
      ProceedGroupState env f g a = (Inr True, []))"
proof (cases "length g = 1")
  case True
  then show ?thesis using assms(1)
    by (auto simp: ProceedGroupState_def IsCurrentState_def)
next
  case False
  show ?thesis
    using False
    by (auto simp: primary_report_result[OF assms False] healthy_not_unhealthy
          IsUnhealthySecondary_def IsNotCandidate_def filter_empty_conv)
qed

theorem converged_primary_returns_true_witness:
  "IsCurrentState s5_P REPLICATION_STATE_PRIMARY \<and>
   AutoFailoverOtherNodesList [s5_P, healthyCandidate] s5_P = [healthyCandidate] \<and>
   \<not> IsCurrentState healthyCandidate REPLICATION_STATE_WAIT_STANDBY \<and>
   IsHealthy (Some healthyCandidate) \<and> replicationQuorum healthyCandidate \<and>
   candidatePriority healthyCandidate \<noteq> 0 \<and>
   ProceedGroupState scenarioEnv plainFormation [s5_P, healthyCandidate] s5_P = (Inr True, [])"
proof -
  have os: "AutoFailoverOtherNodesList [s5_P, healthyCandidate] s5_P = [healthyCandidate]"
    by (simp add: AutoFailoverOtherNodesList_def plainFormation_def scenarioEnv_def healthyNode_def unhealthyNode_def
        s5_P_def healthyCandidate_def)
  have h1: "IsCurrentState s5_P REPLICATION_STATE_PRIMARY"
    by (simp add: IsCurrentState_def plainFormation_def scenarioEnv_def healthyNode_def unhealthyNode_def
        s5_P_def healthyCandidate_def)
  have nws: "\<not> IsCurrentState healthyCandidate REPLICATION_STATE_WAIT_STANDBY"
    by (simp add: IsCurrentState_def plainFormation_def scenarioEnv_def healthyNode_def unhealthyNode_def
        s5_P_def healthyCandidate_def)
  have cand: "IsHealthy (Some healthyCandidate) \<and> replicationQuorum healthyCandidate \<and>
     candidatePriority healthyCandidate \<noteq> 0"
    by (simp add: IsHealthy_def plainFormation_def scenarioEnv_def healthyNode_def unhealthyNode_def
        s5_P_def healthyCandidate_def)
  have h2: "\<forall>n\<in>set (AutoFailoverOtherNodesList [s5_P, healthyCandidate] s5_P).
           \<not> IsCurrentState n REPLICATION_STATE_WAIT_STANDBY"
    using nws by (simp add: os)
  show ?thesis
    using converged_primary_returns_true[OF h1 h2, of scenarioEnv plainFormation] h1 nws cand
    by (simp add: os)
qed

section \<open>At most one primary\<close>

text \<open>
  C6. The assignments of one call contain at most one assignment whose new goal state
  is in the primary-like set, whatever the group, the reporting node, the formation,
  the health values, the LSN and the timers are. So do the assignments of the loop of
  rule R12 started, as the code starts it, with the number of other nodes as counter:
  the counter reaches zero at the last node or not at all.
\<close>

theorem at_most_one_primary_like_assignment:
  "PrimaryLikeAssignmentCount (snd (ProceedGroupState env f g a)) \<le> 1 \<and>
   PrimaryLikeAssignmentCount
     (snd (FailoverCandidatesLoop env p os (int (length os)))) \<le> 1"
proof
  show "PrimaryLikeAssignmentCount (snd (ProceedGroupState env f g a)) \<le> 1"
    using ProceedGroupState_cases[of g a env f] primary_count[of env g a]
    by (auto simp: StandbyLogShape_def PrimaryLikeAssignmentCount_def)
  show "PrimaryLikeAssignmentCount
     (snd (FailoverCandidatesLoop env p os (int (length os)))) \<le> 1"
    by (subst loop_log) (simp_all add: count_catchingup PrimaryLikeAssignmentCount_def)
qed



section \<open>No primary to be found\<close>

text \<open>
  C4. When the reporting node is not in a primary state, the group has more than one
  node and no primary node is found in the group, the call makes no assignment and
  ends with the error that reports the missing primary; the goal states of the rows
  of the group are what they were.
\<close>

theorem no_primary_no_assignment:
  assumes "\<not> IsInPrimaryState a" and "length g > 1" and "GetPrimaryNodeInGroup g = None"
  shows "ProceedGroupState env f g a = (Inl PrimaryNodeNotFound, []) \<and>
         ApplyAssignments env (snd (ProceedGroupState env f g a)) g = g"
  using assms by (simp add: ProceedGroupState_def)

theorem no_primary_no_assignment_witness:
  "\<not> IsInPrimaryState catchingupStandby \<and>
   length [nonCandidateStandby, catchingupStandby] > 1 \<and>
   GetPrimaryNodeInGroup [nonCandidateStandby, catchingupStandby] = None \<and>
   ProceedGroupState scenarioEnv plainFormation [nonCandidateStandby, catchingupStandby]
       catchingupStandby = (Inl PrimaryNodeNotFound, []) \<and>
   ApplyAssignments scenarioEnv
     (snd (ProceedGroupState scenarioEnv plainFormation [nonCandidateStandby, catchingupStandby]
             catchingupStandby))
     [nonCandidateStandby, catchingupStandby] = [nonCandidateStandby, catchingupStandby]"
proof -
  have h1: "\<not> IsInPrimaryState catchingupStandby"
    by (simp add: IsInPrimaryState_def plainFormation_def scenarioEnv_def healthyNode_def unhealthyNode_def
        nonCandidateStandby_def catchingupStandby_def)
  have h2: "length [nonCandidateStandby, catchingupStandby] > 1" by simp
  have h3: "GetPrimaryNodeInGroup [nonCandidateStandby, catchingupStandby] = None"
    by (simp add: GetPrimaryNodeInGroup_def plainFormation_def scenarioEnv_def healthyNode_def unhealthyNode_def
        nonCandidateStandby_def catchingupStandby_def)
  show ?thesis
    using h1 h2 h3 no_primary_no_assignment[OF h1 h2 h3, of scenarioEnv plainFormation]
    by simp
qed

end
